theory Spec2Isabelle
  imports Complex_Main "HOL-Library.List_Lexorder" "HOL-Library.Char_ord"
    "HOL-Library.Product_Lexorder" "HOL-Library.Sublist"
begin

section \<open>Parsed JSON and the Python values the script handles\<close>

text \<open>
  \<^verbatim>\<open>json.load\<close> returns \<^verbatim>\<open>None\<close>, a \<^verbatim>\<open>bool\<close>, an \<^verbatim>\<open>int\<close>, a \<^verbatim>\<open>float\<close>,
  a \<^verbatim>\<open>str\<close>, a \<^verbatim>\<open>list\<close> or a \<^verbatim>\<open>dict\<close> with \<^verbatim>\<open>str\<close> keys.
  A \<^verbatim>\<open>str\<close> is modelled by the list of the bytes that
  \<^verbatim>\<open>s.encode('utf-8', 'surrogatepass')\<close> gives: UTF-8, with the three bytes
  \<^verbatim>\<open>ED A0 80\<close> to \<^verbatim>\<open>ED BF BF\<close> for a lone surrogate, which \<^verbatim>\<open>json.load\<close> returns
  for the escape of an unpaired surrogate. Equality is the same, and the lexicographic
  order of the bytes is the order of the code points that \<^verbatim>\<open>sorted\<close> uses.
  A \<^verbatim>\<open>float\<close> is the exact rational it denotes, negative zero or an infinity (the value
  of a number too large for a double); the non-standard literal \<^verbatim>\<open>NaN\<close> is left out.
  A \<^verbatim>\<open>dict\<close> is the association list of its items in insertion order; a lookup reads the
  first binding of a key (a parsed \<^verbatim>\<open>dict\<close> binds each key once).
\<close>

datatype pyfloat = Finite rat | NegZero | PosInf | NegInf

datatype json =
    JNull
  | JBool bool
  | JInt int
  | JFloat pyfloat
  | JStr string
  | JArr "json list"
  | JObj "(string \<times> json) list"

text \<open>The hashable values, the only ones a \<^verbatim>\<open>set\<close> can hold.\<close>

datatype atom = ANone | ABool bool | AInt int | AFloat pyfloat | AStr string

text \<open>
  The exceptions. \<open>OSError\<close> stands for the errors of \<^verbatim>\<open>open\<close> other than
  \<^verbatim>\<open>FileNotFoundError\<close> (a directory, no permission), with their message.
\<close>

datatype exn =
    FileNotFoundError string
  | JSONDecodeError string
  | TypeError
  | KeyError string
  | UnicodeDecodeError
  | UnicodeEncodeError
  | OSError string
  | ValueError string
  | RecursionError

fun to_atom :: "json \<Rightarrow> atom option" where
  "to_atom JNull = Some ANone"
| "to_atom (JBool b) = Some (ABool b)"
| "to_atom (JInt i) = Some (AInt i)"
| "to_atom (JFloat f) = Some (AFloat f)"
| "to_atom (JStr s) = Some (AStr s)"
| "to_atom (JArr xs) = None"
| "to_atom (JObj kvs) = None"

subsection \<open>Equality and order of hashable values\<close>

text \<open>
  Python compares \<^verbatim>\<open>bool\<close>, \<^verbatim>\<open>int\<close> and \<^verbatim>\<open>float\<close> by their numeric value
  (\<^verbatim>\<open>True == 1 == 1.0\<close>, \<^verbatim>\<open>0 == -0.0\<close>), a \<^verbatim>\<open>str\<close> only equals the same \<^verbatim>\<open>str\<close>, and
  \<^verbatim>\<open>None\<close> only equals \<^verbatim>\<open>None\<close>. The numeric value is a pair ordered lexicographically:
  the first component is \<open>-1\<close>, \<open>0\<close> or \<open>1\<close> for minus infinity, a finite number and plus
  infinity.
\<close>

fun float_val :: "pyfloat \<Rightarrow> int \<times> rat" where
  "float_val (Finite r) = (0, r)"
| "float_val NegZero = (0, 0)"
| "float_val PosInf = (1, 0)"
| "float_val NegInf = (-1, 0)"

fun num_val :: "atom \<Rightarrow> (int \<times> rat) option" where
  "num_val (ABool b) = Some (0, if b then 1 else 0)"
| "num_val (AInt i) = Some (0, of_int i)"
| "num_val (AFloat f) = Some (float_val f)"
| "num_val ANone = None"
| "num_val (AStr s) = None"

fun str_val :: "atom \<Rightarrow> string option" where
  "str_val (AStr s) = Some s"
| "str_val ANone = None"
| "str_val (ABool b) = None"
| "str_val (AInt i) = None"
| "str_val (AFloat f) = None"

datatype key = KNone | KNum "int \<times> rat" | KStr string

fun atom_key :: "atom \<Rightarrow> key" where
  "atom_key ANone = KNone"
| "atom_key (ABool b) = KNum (0, if b then 1 else 0)"
| "atom_key (AInt i) = KNum (0, of_int i)"
| "atom_key (AFloat f) = KNum (float_val f)"
| "atom_key (AStr s) = KStr s"

definition py_eq :: "atom \<Rightarrow> atom \<Rightarrow> bool" where
  "py_eq a b = (atom_key a = atom_key b)"

subsection \<open>Sets\<close>

text \<open>
  A \<^verbatim>\<open>set\<close> is the list of its elements, pairwise unequal under \<open>py_eq\<close>.
  \<^verbatim>\<open>s.add(v)\<close> raises \<^verbatim>\<open>TypeError\<close> on an unhashable \<open>v\<close> (a list or a dict) and leaves
  \<open>s\<close> as it is when an equal element is already there.
\<close>

type_synonym pyset = "atom list"

definition set_contains :: "pyset \<Rightarrow> atom \<Rightarrow> bool" where
  "set_contains s a = list_ex (py_eq a) s"

definition set_add :: "json \<Rightarrow> pyset \<Rightarrow> exn + pyset" where
  "set_add v s =
     (case to_atom v of
        None \<Rightarrow> Inl TypeError
      | Some a \<Rightarrow> Inr (if set_contains s a then s else s @ [a]))"

text \<open>
  The elements of a set up to Python's equality, and the invariant of the representation:
  no two elements of the list are equal.
\<close>

definition elems :: "pyset \<Rightarrow> key set" where
  "elems s = atom_key ` set s"

definition pyset_wf :: "pyset \<Rightarrow> bool" where
  "pyset_wf s = distinct (map atom_key s)"

subsection \<open>The operators \<^verbatim>\<open>in\<close>, \<^verbatim>\<open>[]\<close> and \<^verbatim>\<open>for\<close> on parsed JSON\<close>

fun is_substr :: "string \<Rightarrow> string \<Rightarrow> bool" where
  "is_substr p [] = (p = [])"
| "is_substr p (c # cs) = (prefix p (c # cs) \<or> is_substr p cs)"

text \<open>
  \<^verbatim>\<open>k in v\<close> for a \<^verbatim>\<open>str\<close> \<open>k\<close>: a key test on a \<^verbatim>\<open>dict\<close>, an element test on a
  \<^verbatim>\<open>list\<close>, a substring test on a \<^verbatim>\<open>str\<close>, and a \<^verbatim>\<open>TypeError\<close> on a value that is
  not a container.
\<close>

fun py_in :: "string \<Rightarrow> json \<Rightarrow> exn + bool" where
  "py_in k (JObj kvs) = Inr (map_of kvs k \<noteq> None)"
| "py_in k (JArr xs) = Inr (JStr k \<in> set xs)"
| "py_in k (JStr s) = Inr (is_substr k s)"
| "py_in k JNull = Inl TypeError"
| "py_in k (JBool b) = Inl TypeError"
| "py_in k (JInt i) = Inl TypeError"
| "py_in k (JFloat f) = Inl TypeError"

text \<open>
  \<^verbatim>\<open>v[k]\<close> for a \<^verbatim>\<open>str\<close> \<open>k\<close>: the value bound in a \<^verbatim>\<open>dict\<close> (\<^verbatim>\<open>KeyError\<close> when
  there is none), and a \<^verbatim>\<open>TypeError\<close> on everything else (a \<^verbatim>\<open>list\<close> and a \<^verbatim>\<open>str\<close>
  take integer indices only).
\<close>

fun py_getitem :: "json \<Rightarrow> string \<Rightarrow> exn + json" where
  "py_getitem (JObj kvs) k =
     (case map_of kvs k of None \<Rightarrow> Inl (KeyError k) | Some v \<Rightarrow> Inr v)"
| "py_getitem (JArr xs) k = Inl TypeError"
| "py_getitem (JStr s) k = Inl TypeError"
| "py_getitem JNull k = Inl TypeError"
| "py_getitem (JBool b) k = Inl TypeError"
| "py_getitem (JInt i) k = Inl TypeError"
| "py_getitem (JFloat f) k = Inl TypeError"

text \<open>
  \<^verbatim>\<open>for x in v\<close>: the elements of a \<^verbatim>\<open>list\<close>, the keys of a \<^verbatim>\<open>dict\<close>, the
  one-character strings of a \<^verbatim>\<open>str\<close>, and a \<^verbatim>\<open>TypeError\<close> on everything else.
\<close>

fun py_iter :: "json \<Rightarrow> exn + json list" where
  "py_iter (JArr xs) = Inr xs"
| "py_iter (JObj kvs) = Inr (map (\<lambda>kv. JStr (fst kv)) kvs)"
| "py_iter (JStr s) = Inr (map (\<lambda>c. JStr [c]) s)"
| "py_iter JNull = Inl TypeError"
| "py_iter (JBool b) = Inl TypeError"
| "py_iter (JInt i) = Inl TypeError"
| "py_iter (JFloat f) = Inl TypeError"

section \<open>The extractors\<close>

text \<open>
  \<^verbatim>\<open>extract_followers\<close>: the inner loop over the items of one \<^verbatim>\<open>string_list_data\<close>,
  the outer loop over the entries, and the function. \<open>us\<close> is the set \<^verbatim>\<open>usernames\<close>.
\<close>

fun followers_items :: "json list \<Rightarrow> pyset \<Rightarrow> exn + pyset" where
  "followers_items [] us = Inr us"
| "followers_items (item # items) us =
     (case py_in ''value'' item of
        Inl e \<Rightarrow> Inl e
      | Inr False \<Rightarrow> followers_items items us
      | Inr True \<Rightarrow>
          (case py_getitem item ''value'' of
             Inl e \<Rightarrow> Inl e
           | Inr v \<Rightarrow>
               (case set_add v us of
                  Inl e \<Rightarrow> Inl e
                | Inr us' \<Rightarrow> followers_items items us')))"

fun followers_entries :: "json list \<Rightarrow> pyset \<Rightarrow> exn + pyset" where
  "followers_entries [] us = Inr us"
| "followers_entries (entry # entries) us =
     (case py_in ''string_list_data'' entry of
        Inl e \<Rightarrow> Inl e
      | Inr False \<Rightarrow> followers_entries entries us
      | Inr True \<Rightarrow>
          (case py_getitem entry ''string_list_data'' of
             Inl e \<Rightarrow> Inl e
           | Inr sld \<Rightarrow>
               (case py_iter sld of
                  Inl e \<Rightarrow> Inl e
                | Inr items \<Rightarrow>
                    (case followers_items items us of
                       Inl e \<Rightarrow> Inl e
                     | Inr us' \<Rightarrow> followers_entries entries us'))))"

definition extract_followers :: "json \<Rightarrow> exn + pyset" where
  "extract_followers data =
     (case py_iter data of
        Inl e \<Rightarrow> Inl e
      | Inr entries \<Rightarrow> followers_entries entries [])"

text \<open>\<^verbatim>\<open>extract_following\<close>: the loop over the entries, and the function.\<close>

fun following_entries :: "json list \<Rightarrow> pyset \<Rightarrow> exn + pyset" where
  "following_entries [] us = Inr us"
| "following_entries (entry # entries) us =
     (case py_in ''title'' entry of
        Inl e \<Rightarrow> Inl e
      | Inr False \<Rightarrow> following_entries entries us
      | Inr True \<Rightarrow>
          (case py_getitem entry ''title'' of
             Inl e \<Rightarrow> Inl e
           | Inr v \<Rightarrow>
               (case set_add v us of
                  Inl e \<Rightarrow> Inl e
                | Inr us' \<Rightarrow> following_entries entries us')))"

definition extract_following :: "json \<Rightarrow> exn + pyset" where
  "extract_following data =
     (case py_in ''relationships_following'' data of
        Inl e \<Rightarrow> Inl e
      | Inr False \<Rightarrow> Inr []
      | Inr True \<Rightarrow>
          (case py_getitem data ''relationships_following'' of
             Inl e \<Rightarrow> Inl e
           | Inr rf \<Rightarrow>
               (case py_iter rf of
                  Inl e \<Rightarrow> Inl e
                | Inr entries \<Rightarrow> following_entries entries [])))"

section \<open>The differ\<close>

text \<open>\<^verbatim>\<open>following - followers\<close>: the elements of the first set that the second lacks.\<close>

definition find_non_followers :: "pyset \<Rightarrow> pyset \<Rightarrow> pyset" where
  "find_non_followers following followers =
     filter (\<lambda>u. \<not> set_contains followers u) following"

section \<open>Text files\<close>

text \<open>
  A file opened with \<^verbatim>\<open>encoding='utf-8'\<close> holds bytes. Reading decodes them and
  raises \<^verbatim>\<open>UnicodeDecodeError\<close> unless they are well-formed UTF-8; writing encodes the
  text and raises \<^verbatim>\<open>UnicodeEncodeError\<close> on a lone surrogate. In the representation
  of a \<^verbatim>\<open>str\<close> by bytes both tests are the same: the bytes are well-formed UTF-8
  (no byte sequence of a surrogate, of an overlong form or beyond \<^verbatim>\<open>U+10FFFF\<close>).
\<close>

definition byte :: "char \<Rightarrow> nat" where
  "byte c = of_char c"

definition in_range :: "nat \<Rightarrow> nat \<Rightarrow> char \<Rightarrow> bool" where
  "in_range lo hi c = (lo \<le> byte c \<and> byte c \<le> hi)"

fun utf8_valid :: "string \<Rightarrow> bool" where
  "utf8_valid [] = True"
| "utf8_valid (a # bs) =
     (if byte a \<le> 0x7F then utf8_valid bs
      else if in_range 0xC2 0xDF a then
        (case bs of
           b # cs \<Rightarrow> in_range 0x80 0xBF b \<and> utf8_valid cs
         | _ \<Rightarrow> False)
      else if in_range 0xE0 0xEF a then
        (case bs of
           b # c # ds \<Rightarrow>
             in_range (if byte a = 0xE0 then 0xA0 else 0x80)
                      (if byte a = 0xED then 0x9F else 0xBF) b
             \<and> in_range 0x80 0xBF c \<and> utf8_valid ds
         | _ \<Rightarrow> False)
      else if in_range 0xF0 0xF4 a then
        (case bs of
           b # c # d # es \<Rightarrow>
             in_range (if byte a = 0xF0 then 0x90 else 0x80)
                      (if byte a = 0xF4 then 0x8F else 0xBF) b
             \<and> in_range 0x80 0xBF c \<and> in_range 0x80 0xBF d \<and> utf8_valid es
         | _ \<Rightarrow> False)
      else False)"

text \<open>
  A file opened for reading without a \<^verbatim>\<open>newline\<close> argument gives every line end
  (carriage return, line feed, or both) as one line feed. Writing leaves a line feed as it
  is where \<^verbatim>\<open>os.linesep\<close> is the line feed.
\<close>

definition newline :: char where
  "newline = CHR 0x0A"

definition carriage_return :: char where
  "carriage_return = CHR 0x0D"

fun universal_newlines :: "string \<Rightarrow> string" where
  "universal_newlines [] = []"
| "universal_newlines (c # cs) =
     (if c = carriage_return then
        (case cs of
           d # ds \<Rightarrow>
             if d = newline then newline # universal_newlines ds
             else newline # universal_newlines cs
         | [] \<Rightarrow> [newline])
      else c # universal_newlines cs)"

text \<open>
  The file system. \<open>nodes\<close> maps every path that exists to the bytes of the file there,
  or to the error that opening or reading it raises (a directory, a file without
  permission). \<open>locked\<close> maps a path to the error that \<^verbatim>\<open>open(path, 'w')\<close> raises
  there: an empty path, a path in a missing directory, a directory, a path without
  permission. At every other path \<^verbatim>\<open>open(path, 'w')\<close> creates the file or empties it.
\<close>

record filesystem =
  nodes :: "string \<rightharpoonup> exn + string"
  locked :: "string \<rightharpoonup> exn"

section \<open>The reporter\<close>

text \<open>
  \<^verbatim>\<open>sorted(users)\<close> compares the elements with \<^verbatim>\<open><\<close>: strings by code points,
  numbers by value, and a \<^verbatim>\<open>TypeError\<close> for \<^verbatim>\<open>None\<close> or for a string against a number.
  Up to one element nothing is compared.
\<close>

definition num_key :: "atom \<Rightarrow> int \<times> rat" where
  "num_key a = (case num_val a of Some k \<Rightarrow> k | None \<Rightarrow> (0, 0))"

definition py_sorted :: "atom list \<Rightarrow> exn + atom list" where
  "py_sorted xs =
     (if length xs \<le> 1 then Inr xs
      else case those (map str_val xs) of
             Some ss \<Rightarrow> Inr (map AStr (sort ss))
           | None \<Rightarrow>
               if list_all (\<lambda>a. num_val a \<noteq> None) xs then Inr (sort_key num_key xs)
               else Inl TypeError)"

text \<open>
  The text that \<^verbatim>\<open>f"{user}"\<close> gives. The decimal text of a \<^verbatim>\<open>float\<close> is the
  parameter \<open>float_repr\<close>.
\<close>

definition digit_char :: "nat \<Rightarrow> char" where
  "digit_char d = char_of (48 + d)"

function show_nat :: "nat \<Rightarrow> string" where
  "show_nat n = (if n < 10 then [digit_char n] else show_nat (n div 10) @ [digit_char (n mod 10)])"
  by pat_completeness auto
termination
  by (relation "measure id") auto

definition show_int :: "int \<Rightarrow> string" where
  "show_int i = (if i < 0 then CHR ''-'' # show_nat (nat (- i)) else show_nat (nat i))"

fun format_atom :: "(pyfloat \<Rightarrow> string) \<Rightarrow> atom \<Rightarrow> string" where
  "format_atom float_repr (AStr s) = s"
| "format_atom float_repr ANone = ''None''"
| "format_atom float_repr (ABool b) = (if b then ''True'' else ''False'')"
| "format_atom float_repr (AInt i) = show_int i"
| "format_atom float_repr (AFloat f) = float_repr f"

text \<open>
  The loop of \<^verbatim>\<open>write_to_file\<close>: \<open>f\<close> is what the file holds so far. A line that
  cannot be encoded raises \<^verbatim>\<open>UnicodeEncodeError\<close>; the lines written before it stay
  in the file, which the \<^verbatim>\<open>with\<close> statement closes.
\<close>

fun write_users ::
  "(pyfloat \<Rightarrow> string) \<Rightarrow> atom list \<Rightarrow> string \<Rightarrow> string \<times> exn option" where
  "write_users float_repr [] f = (f, None)"
| "write_users float_repr (user # users) f =
     (let line = format_atom float_repr user @ [newline]
      in if utf8_valid line then write_users float_repr users (f @ line)
         else (f, Some UnicodeEncodeError))"

text \<open>
  \<^verbatim>\<open>write_to_file\<close>: the file system it leaves and the exception it raises, if any.
  \<^verbatim>\<open>sorted\<close> comes before \<^verbatim>\<open>open\<close>, so that an error of either leaves the file
  system as it was.
\<close>

definition write_to_file ::
  "(pyfloat \<Rightarrow> string) \<Rightarrow> pyset \<Rightarrow> string \<Rightarrow> filesystem \<Rightarrow> filesystem \<times> exn option" where
  "write_to_file float_repr users output_path fs =
     (case py_sorted users of
        Inl e \<Rightarrow> (fs, Some e)
      | Inr sorted_users \<Rightarrow>
          (case locked fs output_path of
             Some e \<Rightarrow> (fs, Some e)
           | None \<Rightarrow>
               (case write_users float_repr sorted_users [] of
                  (f, err) \<Rightarrow> (fs\<lparr>nodes := (nodes fs)(output_path \<mapsto> Inr f)\<rparr>, err))))"



section \<open>The loader\<close>

text \<open>
  The parser is the parameter \<open>json_load\<close>: for the text that \<^verbatim>\<open>f.read()\<close> returns,
  the value that \<^verbatim>\<open>json.load\<close> returns or the exception it raises
  (\<^verbatim>\<open>JSONDecodeError\<close> with its message on malformed JSON, \<^verbatim>\<open>ValueError\<close> on an
  integer with more digits than the interpreter converts, \<^verbatim>\<open>RecursionError\<close> on
  nesting that is too deep). \<^verbatim>\<open>os.path.exists\<close> comes first, then \<^verbatim>\<open>open\<close>, then
  the decoding of the whole file, then the parser.
\<close>

definition load_json_file ::
  "(string \<Rightarrow> exn + json) \<Rightarrow> filesystem \<Rightarrow> string \<Rightarrow> exn + json" where
  "load_json_file json_load fs filepath =
     (case nodes fs filepath of
        None \<Rightarrow> Inl (FileNotFoundError (''File not found: '' @ filepath))
      | Some (Inl e) \<Rightarrow> Inl e
      | Some (Inr bytes) \<Rightarrow>
          if utf8_valid bytes then json_load (universal_newlines bytes)
          else Inl UnicodeDecodeError)"

section \<open>The top-level flow\<close>

text \<open>One constructor for each \<^verbatim>\<open>print\<close> of \<^verbatim>\<open>main\<close>, with the values it shows.\<close>

datatype msg =
    Title
  | Rule
  | LoadingFollowers string
  | LoadingFollowing string
  | Extracting
  | FoundFollowers nat
  | FoundFollowing nat
  | FoundNotFollowingBack nat
  | ResultsSaved string
  | EveryoneFollowsBack
  | ErrorNotFound exn
  | MakeSure
  | Step1
  | Step2
  | Step3
  | ErrorInvalidJson exn
  | CorruptHint
  | UnexpectedError exn

definition path_join :: "string \<Rightarrow> string \<Rightarrow> string" where
  "path_join dir name = dir @ ''/'' @ name"

text \<open>
  The body of the \<^verbatim>\<open>try\<close>: what it printed, the file system it leaves, and the
  exception that ended it, if any.
\<close>

definition try_body ::
  "(string \<Rightarrow> exn + json) \<Rightarrow> (pyfloat \<Rightarrow> string) \<Rightarrow> string \<Rightarrow> string \<Rightarrow> string \<Rightarrow>
     filesystem \<Rightarrow> msg list \<times> filesystem \<times> exn option" where
  "try_body json_load float_repr followers_path following_path output_path fs =
     (case load_json_file json_load fs followers_path of
        Inl e \<Rightarrow> ([LoadingFollowers followers_path], fs, Some e)
      | Inr followers_data \<Rightarrow>
     (case load_json_file json_load fs following_path of
        Inl e \<Rightarrow> ([LoadingFollowers followers_path, LoadingFollowing following_path], fs, Some e)
      | Inr following_data \<Rightarrow>
     (let out = [LoadingFollowers followers_path, LoadingFollowing following_path, Extracting] in
      case extract_followers followers_data of
        Inl e \<Rightarrow> (out, fs, Some e)
      | Inr followers \<Rightarrow>
     (case extract_following following_data of
        Inl e \<Rightarrow> (out, fs, Some e)
      | Inr following \<Rightarrow>
     (let out = out @ [FoundFollowers (length followers), FoundFollowing (length following)];
          not_following_back = find_non_followers following followers
      in if not_following_back \<noteq> [] then
           (case write_to_file float_repr not_following_back output_path fs of
              (fs', Some e) \<Rightarrow> (out, fs', Some e)
            | (fs', None) \<Rightarrow>
                (out @ [FoundNotFollowingBack (length not_following_back),
                        ResultsSaved output_path], fs', None))
         else (out @ [EveryoneFollowsBack], fs, None))))))"

text \<open>The three \<^verbatim>\<open>except\<close> clauses, in their order.\<close>

fun handler :: "exn \<Rightarrow> msg list" where
  "handler (FileNotFoundError m) = [ErrorNotFound (FileNotFoundError m), MakeSure, Step1, Step2, Step3]"
| "handler (JSONDecodeError m) = [ErrorInvalidJson (JSONDecodeError m), CorruptHint]"
| "handler e = [UnexpectedError e]"

text \<open>
  The paths of \<^verbatim>\<open>main\<close>; \<open>script_dir\<close> is the directory of the script. The followers
  file is \<^verbatim>\<open>followers_1.json\<close>, or \<^verbatim>\<open>followers.json\<close> when the first does not exist.
\<close>

definition primary_followers_path :: "string \<Rightarrow> string" where
  "primary_followers_path script_dir =
     path_join (path_join script_dir ''followers_and_following'') ''followers_1.json''"

definition alternative_followers_path :: "string \<Rightarrow> string" where
  "alternative_followers_path script_dir =
     path_join (path_join script_dir ''followers_and_following'') ''followers.json''"

definition followers_path :: "string \<Rightarrow> filesystem \<Rightarrow> string" where
  "followers_path script_dir fs =
     (if nodes fs (primary_followers_path script_dir) = None
      then alternative_followers_path script_dir
      else primary_followers_path script_dir)"

definition following_path :: "string \<Rightarrow> string" where
  "following_path script_dir =
     path_join (path_join script_dir ''followers_and_following'') ''following.json''"

definition output_path :: "string \<Rightarrow> string" where
  "output_path script_dir = path_join script_dir ''not_following_back.txt''"

definition main ::
  "(string \<Rightarrow> exn + json) \<Rightarrow> (pyfloat \<Rightarrow> string) \<Rightarrow> string \<Rightarrow> filesystem \<Rightarrow>
     msg list \<times> filesystem" where
  "main json_load float_repr script_dir fs =
     (case try_body json_load float_repr (followers_path script_dir fs)
             (following_path script_dir) (output_path script_dir) fs of
        (out, fs', None) \<Rightarrow> ([Title, Rule] @ out, fs')
      | (out, fs', Some e) \<Rightarrow> ([Title, Rule] @ out @ handler e, fs'))"

section \<open>The inputs the script expects\<close>

text \<open>
  The followers file holds a list of records; a record may have a \<^verbatim>\<open>string_list_data\<close>
  list of entries, and an entry may have a \<^verbatim>\<open>value\<close>. The following file holds an
  object that may have a \<^verbatim>\<open>relationships_following\<close> list of records, and a record
  may have a \<^verbatim>\<open>title\<close>. The predicate \<open>P\<close> says what a \<^verbatim>\<open>value\<close> or a
  \<^verbatim>\<open>title\<close> may be: a string (\<open>is_str\<close>), or any value but a list or an object
  (\<open>is_scalar\<close>).
\<close>

fun is_str :: "json \<Rightarrow> bool" where
  "is_str (JStr s) = True"
| "is_str v = False"

definition is_scalar :: "json \<Rightarrow> bool" where
  "is_scalar v = (to_atom v \<noteq> None)"

fun field_ok :: "string \<Rightarrow> (json \<Rightarrow> bool) \<Rightarrow> json \<Rightarrow> bool" where
  "field_ok k P (JObj kvs) = (case map_of kvs k of None \<Rightarrow> True | Some v \<Rightarrow> P v)"
| "field_ok k P v = False"

fun record_ok :: "(json \<Rightarrow> bool) \<Rightarrow> json \<Rightarrow> bool" where
  "record_ok P (JObj kvs) =
     (case map_of kvs ''string_list_data'' of
        None \<Rightarrow> True
      | Some (JArr items) \<Rightarrow> list_all (field_ok ''value'' P) items
      | Some v \<Rightarrow> False)"
| "record_ok P v = False"

fun followers_input :: "(json \<Rightarrow> bool) \<Rightarrow> json \<Rightarrow> bool" where
  "followers_input P (JArr recs) = list_all (record_ok P) recs"
| "followers_input P v = False"

fun following_input :: "(json \<Rightarrow> bool) \<Rightarrow> json \<Rightarrow> bool" where
  "following_input P (JObj kvs) =
     (case map_of kvs ''relationships_following'' of
        None \<Rightarrow> True
      | Some (JArr recs) \<Rightarrow> list_all (field_ok ''title'' P) recs
      | Some v \<Rightarrow> False)"
| "following_input P v = False"

text \<open>
  The \<^verbatim>\<open>value\<close> fields of the entries of the \<^verbatim>\<open>string_list_data\<close> lists of a
  followers input, and the \<^verbatim>\<open>title\<close> fields of the records under
  \<^verbatim>\<open>relationships_following\<close> of a following input, in the order of the file.
\<close>

fun field_values :: "string \<Rightarrow> json \<Rightarrow> json list" where
  "field_values k (JObj kvs) = (case map_of kvs k of None \<Rightarrow> [] | Some v \<Rightarrow> [v])"
| "field_values k v = []"

fun record_values :: "json \<Rightarrow> json list" where
  "record_values (JObj kvs) =
     (case map_of kvs ''string_list_data'' of
        Some (JArr items) \<Rightarrow> concat (map (field_values ''value'') items)
      | _ \<Rightarrow> [])"
| "record_values v = []"

fun followers_values :: "json \<Rightarrow> json list" where
  "followers_values (JArr recs) = concat (map record_values recs)"
| "followers_values v = []"

fun following_values :: "json \<Rightarrow> json list" where
  "following_values (JObj kvs) =
     (case map_of kvs ''relationships_following'' of
        Some (JArr recs) \<Rightarrow> concat (map (field_values ''title'') recs)
      | _ \<Rightarrow> [])"
| "following_values v = []"

text \<open>The hashable ones among a list of values, and the set after adding each in turn.\<close>

fun atoms_of :: "json list \<Rightarrow> atom list" where
  "atoms_of [] = []"
| "atoms_of (v # vs) = (case to_atom v of None \<Rightarrow> atoms_of vs | Some a \<Rightarrow> a # atoms_of vs)"

fun add_all :: "atom list \<Rightarrow> pyset \<Rightarrow> pyset" where
  "add_all [] s = s"
| "add_all (a # as) s = add_all as (if set_contains s a then s else s @ [a])"

section \<open>Example inputs\<close>

definition followers_example :: json where
  "followers_example =
     JArr [JObj [(''string_list_data'',
                  JArr [JObj [(''value'', JStr ''alice''), (''timestamp'', JInt 5)],
                        JObj [(''href'', JStr ''x'')]])],
           JObj [(''title'', JStr ''carol'')],
           JObj [(''string_list_data'',
                  JArr [JObj [(''value'', JStr ''bob'')], JObj [(''value'', JStr ''alice'')]])]]"

definition following_example :: json where
  "following_example =
     JObj [(''relationships_following'',
            JArr [JObj [(''title'', JStr ''carol''), (''string_list_data'', JArr [])],
                  JObj [(''string_list_data'', JArr [])],
                  JObj [(''title'', JStr ''dan'')]])]"

definition mixed_followers_example :: json where
  "mixed_followers_example =
     JArr [JObj [(''string_list_data'',
                  JArr [JObj [(''value'', JInt 1)], JObj [(''value'', JStr ''bob'')],
                        JObj [(''value'', JBool True)]])]]"

definition mixed_following_example :: json where
  "mixed_following_example =
     JObj [(''relationships_following'',
            JArr [JObj [(''title'', JNull)], JObj [(''title'', JStr ''carol'')]])]"

definition xy_followers :: json where
  "xy_followers =
     JArr [JObj [(''string_list_data'', JArr [JObj [(''value'', JStr ''x'')]])],
           JObj [(''string_list_data'', JArr [JObj [(''value'', JStr ''y'')]])]]"

definition xy_following :: json where
  "xy_following =
     JObj [(''relationships_following'',
            JArr [JObj [(''title'', JStr ''x'')], JObj [(''title'', JStr ''y'')]])]"

text \<open>
  A stand-in for the parser on three texts, and a file system with both input files
  under the directory \<^verbatim>\<open>d\<close>.
\<close>

definition example_load :: "string \<Rightarrow> exn + json" where
  "example_load text =
     (if text = ''F'' then Inr xy_followers
      else if text = ''G'' then Inr xy_following
      else if text = ''E'' then Inr (JArr [])
      else Inl (JSONDecodeError ''Expecting value''))"

definition example_fs :: filesystem where
  "example_fs =
     \<lparr>nodes = [''d/followers_and_following/followers.json'' \<mapsto> Inr ''F'',
               ''d/followers_and_following/following.json'' \<mapsto> Inr ''G''],
      locked = Map.empty\<rparr>"

section \<open>Properties of the differ\<close>

lemma py_eq_AStr: "py_eq (AStr x) b \<longleftrightarrow> b = AStr x"
  by (cases b) (auto simp: py_eq_def)

lemma set_contains_AStr: "set_contains s (AStr x) \<longleftrightarrow> AStr x \<in> set s"
  by (auto simp: set_contains_def list_ex_iff py_eq_AStr)

lemma set_contains_elems: "set_contains s a \<longleftrightarrow> atom_key a \<in> elems s"
  by (auto simp: set_contains_def list_ex_iff py_eq_def elems_def)

lemma elems_find_non_followers: "elems (find_non_followers A B) = elems A - elems B"
  by (auto simp: find_non_followers_def set_contains_elems elems_def)

lemma find_non_followers_again:
  "find_non_followers (find_non_followers A B) B = find_non_followers A B"
  by (simp add: find_non_followers_def)

lemma find_non_followers_strs:
  "find_non_followers (map AStr A) (map AStr B) = map AStr (filter (\<lambda>x. x \<notin> set B) A)"
  by (induction A) (auto simp: find_non_followers_def set_contains_AStr)

text \<open>
  C1. \<open>find_non_followers following followers\<close> is the set difference of
  \<open>following\<close> and \<open>followers\<close>: on two sets of identifiers (strings) its elements are exactly
  the identifiers of the first that are not in the second, and on any two sets the same
  holds up to Python's equality. It returns a set for every two sets (its result is a
  plain value, not an error), it is a function of its two arguments, and applying it again
  to its result and the same \<open>followers\<close> changes nothing.
\<close>

theorem find_non_followers_is_difference:
  "set (find_non_followers (map AStr following) (map AStr followers))
     = AStr ` (set following - set followers)
   \<and> elems (find_non_followers A B) = elems A - elems B
   \<and> find_non_followers (find_non_followers A B) B = find_non_followers A B"
  by (auto simp: find_non_followers_strs elems_find_non_followers find_non_followers_again)

text \<open>
  C8. \<open>find_non_followers A B\<close> is empty if and only if \<open>A\<close> is a subset of \<open>B\<close>:
  for two sets of identifiers, and for any two sets up to Python's equality.
\<close>

theorem find_non_followers_empty_iff_subset:
  "(find_non_followers (map AStr A) (map AStr B) = [] \<longleftrightarrow> set A \<subseteq> set B)
   \<and> (find_non_followers X Y = [] \<longleftrightarrow> elems X \<subseteq> elems Y)"
proof
  show "find_non_followers (map AStr A) (map AStr B) = [] \<longleftrightarrow> set A \<subseteq> set B"
    by (auto simp: find_non_followers_strs filter_empty_conv)
  show "find_non_followers X Y = [] \<longleftrightarrow> elems X \<subseteq> elems Y"
    by (auto simp: find_non_followers_def filter_empty_conv set_contains_elems elems_def)
qed

section \<open>Properties of the extractors\<close>

lemma atoms_of_append [simp]: "atoms_of (vs @ ws) = atoms_of vs @ atoms_of ws"
  by (induction vs) (simp_all split: option.splits)

lemma add_all_append: "add_all (xs @ ys) s = add_all ys (add_all xs s)"
  by (induction xs arbitrary: s) simp_all

lemma not_contains_notin: "\<not> set_contains s a \<Longrightarrow> a \<notin> set s"
  by (auto simp: set_contains_def list_ex_iff py_eq_def)

lemma distinct_add_all: "distinct s \<Longrightarrow> distinct (add_all as s)"
  by (induction as arbitrary: s) (auto dest: not_contains_notin)

lemma pyset_wf_add_all: "pyset_wf s \<Longrightarrow> pyset_wf (add_all as s)"
proof (induction as arbitrary: s)
  case Nil
  then show ?case by simp
next
  case (Cons a as)
  have "pyset_wf (if set_contains s a then s else s @ [a])"
    using Cons.prems by (auto simp: pyset_wf_def set_contains_elems elems_def)
  then show ?case using Cons.IH by simp
qed

lemma pyset_wf_add_all_empty: "pyset_wf (add_all as [])"
  by (rule pyset_wf_add_all) (simp add: pyset_wf_def)

lemma elems_add_all: "elems (add_all as s) = elems s \<union> elems as"
proof (induction as arbitrary: s)
  case Nil
  then show ?case by (simp add: elems_def)
next
  case (Cons a as)
  have "elems (if set_contains s a then s else s @ [a]) = insert (atom_key a) (elems s)"
    by (auto simp: set_contains_elems) (auto simp: elems_def)
  then show ?case using Cons.IH [of "if set_contains s a then s else s @ [a]"]
    by (auto simp: elems_def)
qed

lemma set_add_all_strs: "set (add_all (map AStr xs) s) = set s \<union> AStr ` set xs"
  by (induction xs arbitrary: s) (auto simp: set_contains_AStr)

lemma atoms_of_strs: "list_all is_str vs \<Longrightarrow> atoms_of vs = map AStr [s. JStr s \<leftarrow> vs]"
proof (induction vs)
  case Nil
  then show ?case by simp
next
  case (Cons v vs)
  then show ?case by (cases v) simp_all
qed

lemma set_strs: "set [s. JStr s \<leftarrow> vs] = {s. JStr s \<in> set vs}"
  by (induction vs) (auto split: json.splits)

lemma set_add_all_atoms_of_strs:
  assumes "list_all is_str vs"
  shows "set (add_all (atoms_of vs) []) = {AStr s |s. JStr s \<in> set vs}"
  using assms by (auto simp: atoms_of_strs set_add_all_strs set_strs)

lemma is_str_scalar: "is_str v \<Longrightarrow> is_scalar v"
  by (cases v) (simp_all add: is_scalar_def)

lemma field_ok_str_scalar: "field_ok k is_str v \<Longrightarrow> field_ok k is_scalar v"
  by (cases v) (auto split: option.splits intro: is_str_scalar)

lemma fields_ok_str_scalar:
  "list_all (field_ok k is_str) vs \<Longrightarrow> list_all (field_ok k is_scalar) vs"
  by (induction vs) (auto intro: field_ok_str_scalar)

lemma record_ok_str_scalar: "record_ok is_str r \<Longrightarrow> record_ok is_scalar r"
  by (cases r) (auto split: option.splits json.splits intro: fields_ok_str_scalar)

lemma followers_input_str_scalar: "followers_input is_str d \<Longrightarrow> followers_input is_scalar d"
  by (cases d) (auto simp: list_all_iff intro: record_ok_str_scalar)

lemma following_input_str_scalar: "following_input is_str d \<Longrightarrow> following_input is_scalar d"
  by (cases d) (auto split: option.splits json.splits intro: fields_ok_str_scalar)

lemma field_values_str: "field_ok k is_str v \<Longrightarrow> list_all is_str (field_values k v)"
  by (cases v) (auto split: option.splits)

lemma fields_values_str:
  "list_all (field_ok k is_str) vs \<Longrightarrow> list_all is_str (concat (map (field_values k) vs))"
  by (induction vs) (auto simp: field_values_str)

lemma record_values_str: "record_ok is_str r \<Longrightarrow> list_all is_str (record_values r)"
  by (cases r) (auto split: option.splits json.splits intro: fields_values_str)

lemma followers_values_str: "followers_input is_str d \<Longrightarrow> list_all is_str (followers_values d)"
proof (cases d)
  case (JArr recs)
  assume "followers_input is_str d"
  with JArr have "list_all (record_ok is_str) recs" by simp
  then have "list_all is_str (concat (map record_values recs))"
    by (induction recs) (auto simp: record_values_str)
  with JArr show ?thesis by simp
qed simp_all

lemma following_values_str: "following_input is_str d \<Longrightarrow> list_all is_str (following_values d)"
  by (cases d) (auto split: option.splits json.splits intro: fields_values_str)

lemma followers_items_scalar:
  "list_all (field_ok ''value'' is_scalar) items \<Longrightarrow>
   followers_items items us =
     Inr (add_all (atoms_of (concat (map (field_values ''value'') items))) us)"
proof (induction items arbitrary: us)
  case Nil
  then show ?case by simp
next
  case (Cons item items)
  from Cons.prems obtain kvs where item: "item = JObj kvs"
    by (cases item) simp_all
  show ?case
  proof (cases "map_of kvs ''value''")
    case None
    with Cons item show ?thesis by simp
  next
    case (Some v)
    with Cons.prems item obtain a where a: "to_atom v = Some a"
      by (auto simp: is_scalar_def)
    with Some Cons item show ?thesis
      by (simp add: set_add_def)
  qed
qed

lemma following_entries_scalar:
  "list_all (field_ok ''title'' is_scalar) entries \<Longrightarrow>
   following_entries entries us =
     Inr (add_all (atoms_of (concat (map (field_values ''title'') entries))) us)"
proof (induction entries arbitrary: us)
  case Nil
  then show ?case by simp
next
  case (Cons entry entries)
  from Cons.prems obtain kvs where entry: "entry = JObj kvs"
    by (cases entry) simp_all
  show ?case
  proof (cases "map_of kvs ''title''")
    case None
    with Cons entry show ?thesis by simp
  next
    case (Some v)
    with Cons.prems entry obtain a where a: "to_atom v = Some a"
      by (auto simp: is_scalar_def)
    with Some Cons entry show ?thesis
      by (simp add: set_add_def)
  qed
qed

lemma followers_entries_scalar:
  "list_all (record_ok is_scalar) recs \<Longrightarrow>
   followers_entries recs us = Inr (add_all (atoms_of (concat (map record_values recs))) us)"
proof (induction recs arbitrary: us)
  case Nil
  then show ?case by simp
next
  case (Cons r recs)
  from Cons.prems obtain kvs where r: "r = JObj kvs"
    by (cases r) simp_all
  show ?case
  proof (cases "map_of kvs ''string_list_data''")
    case None
    with Cons r show ?thesis by simp
  next
    case (Some sld)
    with Cons.prems r obtain items where sld: "sld = JArr items"
      and items: "list_all (field_ok ''value'' is_scalar) items"
      by (cases sld) simp_all
    from Some sld r Cons followers_items_scalar [OF items] show ?thesis
      by (simp add: add_all_append)
  qed
qed

lemma extract_followers_scalar:
  "followers_input is_scalar data \<Longrightarrow>
   extract_followers data = Inr (add_all (atoms_of (followers_values data)) [])"
  by (cases data) (simp_all add: extract_followers_def followers_entries_scalar)

lemma extract_following_scalar:
  "following_input is_scalar data \<Longrightarrow>
   extract_following data = Inr (add_all (atoms_of (following_values data)) [])"
  by (cases data)
     (auto simp: extract_following_def following_entries_scalar
           split: option.splits json.splits)

text \<open>
  C2. On a followers input of the expected shape (a list of records, each with or without
  a \<^verbatim>\<open>string_list_data\<close> list of entries, each entry with or without a \<^verbatim>\<open>value\<close>
  that is a string), \<open>extract_followers\<close> returns normally a set without duplicates
  whose elements are exactly the strings that are the \<^verbatim>\<open>value\<close> of some entry.
  A record without \<^verbatim>\<open>string_list_data\<close> and an entry without \<^verbatim>\<open>value\<close>
  contribute nothing and raise nothing.
\<close>

theorem extract_followers_valid:
  assumes "followers_input is_str data"
  shows "\<exists>us. extract_followers data = Inr us \<and> distinct us \<and> pyset_wf us
           \<and> set us = {AStr s |s. JStr s \<in> set (followers_values data)}"
proof -
  let ?us = "add_all (atoms_of (followers_values data)) []"
  have "extract_followers data = Inr ?us"
    using assms by (simp add: extract_followers_scalar followers_input_str_scalar)
  moreover have "distinct ?us" by (simp add: distinct_add_all)
  moreover have "pyset_wf ?us" by (rule pyset_wf_add_all_empty)
  moreover have "set ?us = {AStr s |s. JStr s \<in> set (followers_values data)}"
    using assms by (simp add: set_add_all_atoms_of_strs followers_values_str)
  ultimately show ?thesis by blast
qed

text \<open>
  C3. On a following input of the expected shape (an object, with or without a
  \<^verbatim>\<open>relationships_following\<close> list of records, each record with or without a
  \<^verbatim>\<open>title\<close> that is a string), \<open>extract_following\<close> returns normally the set of
  exactly the \<^verbatim>\<open>title\<close> values of those records; a record without \<^verbatim>\<open>title\<close>
  contributes nothing. On an object without the key \<^verbatim>\<open>relationships_following\<close>
  it returns the empty set.
\<close>

theorem extract_following_valid:
  "(following_input is_str data \<longrightarrow>
      (\<exists>us. extract_following data = Inr us \<and> distinct us \<and> pyset_wf us
         \<and> set us = {AStr s |s. JStr s \<in> set (following_values data)}))
   \<and> (map_of kvs ''relationships_following'' = None \<longrightarrow> extract_following (JObj kvs) = Inr [])"
proof (intro conjI impI)
  assume ok: "following_input is_str data"
  let ?us = "add_all (atoms_of (following_values data)) []"
  have "extract_following data = Inr ?us"
    using ok by (simp add: extract_following_scalar following_input_str_scalar)
  moreover have "distinct ?us" by (simp add: distinct_add_all)
  moreover have "pyset_wf ?us" by (rule pyset_wf_add_all_empty)
  moreover have "set ?us = {AStr s |s. JStr s \<in> set (following_values data)}"
    using ok by (simp add: set_add_all_atoms_of_strs following_values_str)
  ultimately show "\<exists>us. extract_following data = Inr us \<and> distinct us \<and> pyset_wf us
         \<and> set us = {AStr s |s. JStr s \<in> set (following_values data)}" by blast
next
  assume "map_of kvs ''relationships_following'' = None"
  then show "extract_following (JObj kvs) = Inr []"
    by (simp add: extract_following_def)
qed


theorem extract_followers_valid_witness:
  "followers_input is_str followers_example
   \<and> (\<exists>us. extract_followers followers_example = Inr us \<and> distinct us \<and> pyset_wf us
          \<and> set us = {AStr s |s. JStr s \<in> set (followers_values followers_example)})
   \<and> extract_followers followers_example = Inr [AStr ''alice'', AStr ''bob'']"
proof -
  have ok: "followers_input is_str followers_example"
    by (simp add: followers_example_def)
  have "extract_followers followers_example = Inr [AStr ''alice'', AStr ''bob'']"
    by (simp add: followers_example_def extract_followers_def set_add_def set_contains_def
        py_eq_def)
  with ok extract_followers_valid [OF ok] show ?thesis by simp
qed

theorem extract_following_valid_witness:
  "following_input is_str following_example
   \<and> (\<exists>us. extract_following following_example = Inr us \<and> distinct us \<and> pyset_wf us
          \<and> set us = {AStr s |s. JStr s \<in> set (following_values following_example)})
   \<and> extract_following following_example = Inr [AStr ''carol'', AStr ''dan'']
   \<and> map_of [(''following'', JArr [])] ''relationships_following'' = None
   \<and> extract_following (JObj [(''following'', JArr [])]) = Inr []"
proof -
  have ok: "following_input is_str following_example"
    by (simp add: following_example_def)
  have absent: "map_of [(''following'', JArr [])] ''relationships_following'' = None"
    by simp
  have "extract_following following_example = Inr [AStr ''carol'', AStr ''dan'']"
    by (simp add: following_example_def extract_following_def set_add_def set_contains_def
        py_eq_def)
  with ok absent
    extract_following_valid [of following_example "[(''following'', JArr [])]"]
  show ?thesis by simp
qed

section \<open>Inputs of other shapes\<close>

lemma pyset_wf_find_non_followers: "pyset_wf A \<Longrightarrow> pyset_wf (find_non_followers A B)"
  by (simp add: pyset_wf_def find_non_followers_def distinct_map_filter)

lemma atoms_of_member: "v \<in> set vs \<Longrightarrow> to_atom v = Some a \<Longrightarrow> a \<in> set (atoms_of vs)"
  by (induction vs) (auto split: option.splits)

lemma set_contains_add_all: "a \<in> set as \<Longrightarrow> set_contains (add_all as s) a"
  by (simp add: set_contains_elems elems_add_all) (simp add: elems_def)

lemma set_contains_witness: "set_contains s a \<Longrightarrow> \<exists>u\<in>set s. py_eq u a"
  by (auto simp: set_contains_def list_ex_iff py_eq_def)

lemma py_eq_not_str: "py_eq u a \<Longrightarrow> str_val a = None \<Longrightarrow> str_val u = None"
  by (cases u; cases a) (simp_all add: py_eq_def)

lemma scalar_not_str: "is_scalar v \<Longrightarrow> \<not> is_str v \<Longrightarrow> \<exists>a. to_atom v = Some a \<and> str_val a = None"
  by (cases v) (simp_all add: is_scalar_def)

lemma field_values_ok: "field_ok k P r \<Longrightarrow> v \<in> set (field_values k r) \<Longrightarrow> P v"
  by (cases r) (auto split: option.splits)

lemma fields_values_ok:
  "list_all (field_ok k P) rs \<Longrightarrow> v \<in> set (concat (map (field_values k) rs)) \<Longrightarrow> P v"
  by (auto simp: list_all_iff dest: field_values_ok)

lemma record_values_ok: "record_ok P r \<Longrightarrow> v \<in> set (record_values r) \<Longrightarrow> P v"
  by (cases r) (auto simp: list_all_iff split: option.splits json.splits dest: field_values_ok)

lemma followers_values_ok: "followers_input P d \<Longrightarrow> v \<in> set (followers_values d) \<Longrightarrow> P v"
  by (cases d) (auto simp: list_all_iff dest: record_values_ok)

lemma following_values_ok: "following_input P d \<Longrightarrow> v \<in> set (following_values d) \<Longrightarrow> P v"
  by (cases d) (auto simp: list_all_iff split: option.splits json.splits dest: field_values_ok)

lemma added_non_string:
  assumes "v \<in> set vs" and "is_scalar v" and "\<not> is_str v"
  shows "\<exists>a. to_atom v = Some a \<and> set_contains (add_all (atoms_of vs) []) a
           \<and> (\<exists>u\<in>set (add_all (atoms_of vs) []). py_eq u a \<and> str_val u = None)"
proof -
  from assms obtain a where a: "to_atom v = Some a" "str_val a = None"
    using scalar_not_str by blast
  with assms have c: "set_contains (add_all (atoms_of vs) []) a"
    by (simp add: atoms_of_member set_contains_add_all)
  then obtain u where "u \<in> set (add_all (atoms_of vs) [])" "py_eq u a"
    using set_contains_witness by blast
  with a c show ?thesis using py_eq_not_str by blast
qed

text \<open>
  C7, as stated, fails: extraction raises on parsed JSON of another shape. A record whose
  \<^verbatim>\<open>string_list_data\<close> is the number 1 makes \<^verbatim>\<open>for item in 1\<close> raise
  \<^verbatim>\<open>TypeError\<close> in \<open>extract_followers\<close>, and so does a \<^verbatim>\<open>relationships_following\<close>
  that is the number 1 in \<open>extract_following\<close>.
\<close>

theorem extraction_raises_on_other_shapes:
  "extract_followers (JArr [JObj [(''string_list_data'', JInt 1)]]) = Inl TypeError
   \<and> extract_following (JObj [(''relationships_following'', JInt 1)]) = Inl TypeError"
  by (simp add: extract_followers_def extract_following_def)

text \<open>
  C7, amended. On an input of the expected shape, where a \<^verbatim>\<open>value\<close> or a
  \<^verbatim>\<open>title\<close> may be any JSON value but a list or an object, \<open>extract_followers\<close> and
  \<open>extract_following\<close> return a set and raise nothing; \<open>find_non_followers\<close> returns a
  set for every two sets.
\<close>

theorem extraction_total_on_expected_shapes:
  "(followers_input is_scalar d1 \<longrightarrow> (\<exists>us. extract_followers d1 = Inr us \<and> pyset_wf us))
   \<and> (following_input is_scalar d2 \<longrightarrow> (\<exists>us. extract_following d2 = Inr us \<and> pyset_wf us))
   \<and> (pyset_wf A \<longrightarrow> pyset_wf (find_non_followers A B))"
  by (simp add: extract_followers_scalar extract_following_scalar pyset_wf_add_all_empty
      pyset_wf_find_non_followers)

theorem extraction_total_on_expected_shapes_witness:
  "followers_input is_scalar mixed_followers_example
   \<and> (\<exists>us. extract_followers mixed_followers_example = Inr us \<and> pyset_wf us)
   \<and> following_input is_scalar mixed_following_example
   \<and> (\<exists>us. extract_following mixed_following_example = Inr us \<and> pyset_wf us)
   \<and> pyset_wf [AInt 1, AStr ''bob'']
   \<and> pyset_wf (find_non_followers [AInt 1, AStr ''bob''] [ABool True])"
proof -
  have 1: "followers_input is_scalar mixed_followers_example"
    by (simp add: mixed_followers_example_def is_scalar_def)
  have 2: "following_input is_scalar mixed_following_example"
    by (simp add: mixed_following_example_def is_scalar_def)
  have 3: "pyset_wf [AInt 1, AStr ''bob'']"
    by (simp add: pyset_wf_def)
  from 1 2 3
    extraction_total_on_expected_shapes [of mixed_followers_example mixed_following_example
      "[AInt 1, AStr ''bob'']" "[ABool True]"]
  show ?thesis by simp
qed

text \<open>
  C10, as stated, fails: a \<^verbatim>\<open>value\<close> or a \<^verbatim>\<open>title\<close> that is a list or an object
  is a non-string JSON value, and it is not added: \<^verbatim>\<open>usernames.add\<close> raises
  \<^verbatim>\<open>TypeError\<close> on an unhashable value.
\<close>

theorem unhashable_value_raises:
  "extract_followers (JArr [JObj [(''string_list_data'', JArr [JObj [(''value'', JArr [])]])]])
     = Inl TypeError
   \<and> extract_following (JObj [(''relationships_following'', JArr [JObj [(''title'', JObj [])]])])
     = Inl TypeError"
  by (simp add: extract_followers_def extract_following_def set_add_def)

text \<open>
  C10, amended. The extractors do not check the type of what they extract: on an input of
  the expected shape whose \<^verbatim>\<open>value\<close> and \<^verbatim>\<open>title\<close> fields hold no list and no
  object, the returned set is the result of adding each field value, as it is, in turn; so
  for a field that holds a value other than a string (\<^verbatim>\<open>null\<close>, a boolean or a number)
  the returned set has an element equal to it under Python's equality (the value itself,
  or an equal one added before it), and that element is not a string.
\<close>

theorem extractors_keep_non_strings:
  "(followers_input is_scalar d1 \<and> v1 \<in> set (followers_values d1) \<and> \<not> is_str v1 \<longrightarrow>
      (\<exists>us a. extract_followers d1 = Inr us \<and> us = add_all (atoms_of (followers_values d1)) []
         \<and> to_atom v1 = Some a \<and> set_contains us a
         \<and> (\<exists>u\<in>set us. py_eq u a \<and> str_val u = None)))
   \<and> (following_input is_scalar d2 \<and> v2 \<in> set (following_values d2) \<and> \<not> is_str v2 \<longrightarrow>
      (\<exists>us a. extract_following d2 = Inr us \<and> us = add_all (atoms_of (following_values d2)) []
         \<and> to_atom v2 = Some a \<and> set_contains us a
         \<and> (\<exists>u\<in>set us. py_eq u a \<and> str_val u = None)))"
proof (intro conjI impI)
  assume h: "followers_input is_scalar d1 \<and> v1 \<in> set (followers_values d1) \<and> \<not> is_str v1"
  then have "is_scalar v1" using followers_values_ok by blast
  with h added_non_string [of v1 "followers_values d1"] extract_followers_scalar [of d1]
  show "\<exists>us a. extract_followers d1 = Inr us \<and> us = add_all (atoms_of (followers_values d1)) []
         \<and> to_atom v1 = Some a \<and> set_contains us a
         \<and> (\<exists>u\<in>set us. py_eq u a \<and> str_val u = None)"
    by auto
next
  assume h: "following_input is_scalar d2 \<and> v2 \<in> set (following_values d2) \<and> \<not> is_str v2"
  then have "is_scalar v2" using following_values_ok by blast
  with h added_non_string [of v2 "following_values d2"] extract_following_scalar [of d2]
  show "\<exists>us a. extract_following d2 = Inr us \<and> us = add_all (atoms_of (following_values d2)) []
         \<and> to_atom v2 = Some a \<and> set_contains us a
         \<and> (\<exists>u\<in>set us. py_eq u a \<and> str_val u = None)"
    by auto
qed

theorem extractors_keep_non_strings_witness:
  "followers_input is_scalar mixed_followers_example
   \<and> JBool True \<in> set (followers_values mixed_followers_example) \<and> \<not> is_str (JBool True)
   \<and> (\<exists>us a. extract_followers mixed_followers_example = Inr us
         \<and> us = add_all (atoms_of (followers_values mixed_followers_example)) []
         \<and> to_atom (JBool True) = Some a \<and> set_contains us a
         \<and> (\<exists>u\<in>set us. py_eq u a \<and> str_val u = None))
   \<and> extract_followers mixed_followers_example = Inr [AInt 1, AStr ''bob'']
   \<and> following_input is_scalar mixed_following_example
   \<and> JNull \<in> set (following_values mixed_following_example) \<and> \<not> is_str JNull
   \<and> (\<exists>us a. extract_following mixed_following_example = Inr us
         \<and> us = add_all (atoms_of (following_values mixed_following_example)) []
         \<and> to_atom JNull = Some a \<and> set_contains us a
         \<and> (\<exists>u\<in>set us. py_eq u a \<and> str_val u = None))
   \<and> extract_following mixed_following_example = Inr [ANone, AStr ''carol'']"
proof -
  have 1: "followers_input is_scalar mixed_followers_example
           \<and> JBool True \<in> set (followers_values mixed_followers_example) \<and> \<not> is_str (JBool True)"
    by (simp add: mixed_followers_example_def is_scalar_def)
  have 2: "following_input is_scalar mixed_following_example
           \<and> JNull \<in> set (following_values mixed_following_example) \<and> \<not> is_str JNull"
    by (simp add: mixed_following_example_def is_scalar_def)
  have 3: "extract_followers mixed_followers_example = Inr [AInt 1, AStr ''bob'']"
    by (simp add: mixed_followers_example_def extract_followers_def set_add_def set_contains_def
        py_eq_def)
  have 4: "extract_following mixed_following_example = Inr [ANone, AStr ''carol'']"
    by (simp add: mixed_following_example_def extract_following_def set_add_def set_contains_def
        py_eq_def)
  from 1 2 3 4
    extractors_keep_non_strings [of mixed_followers_example "JBool True"
      mixed_following_example JNull]
  show ?thesis by blast
qed

section \<open>Properties of the reporter\<close>

lemma those_str_val: "those (map (str_val \<circ> AStr) xs) = Some xs"
  by (induction xs) simp_all

lemma sort_short: "length xs \<le> 1 \<Longrightarrow> sort xs = xs"
  by (cases xs) (auto simp: length_Suc_conv)

lemma py_sorted_strs: "py_sorted (map AStr xs) = Inr (map AStr (sort xs))"
  by (simp add: py_sorted_def those_str_val sort_short)

lemma utf8_valid_append: "utf8_valid xs \<Longrightarrow> utf8_valid ys \<Longrightarrow> utf8_valid (xs @ ys)"
  by (induction xs rule: utf8_valid.induct) (auto split: if_splits list.splits)

lemma utf8_valid_line: "utf8_valid u \<Longrightarrow> utf8_valid (u @ [newline])"
  by (rule utf8_valid_append) (simp_all add: newline_def byte_def)

lemma write_users_encodable:
  "\<forall>u\<in>set us. utf8_valid (format_atom r u) \<Longrightarrow>
   write_users r us f = (f @ concat (map (\<lambda>u. format_atom r u @ [newline]) us), None)"
  by (induction us arbitrary: f) (simp_all add: utf8_valid_line)

lemma write_to_file_strs:
  assumes "locked fs p = None" and "\<forall>u\<in>set xs. utf8_valid u"
  shows "write_to_file r (map AStr xs) p fs
     = (fs\<lparr>nodes := (nodes fs)(p \<mapsto> Inr (concat (map (\<lambda>u. u @ [newline]) (sort xs))))\<rparr>, None)"
proof -
  have "write_users r (map AStr (sort xs)) []
          = ([] @ concat (map (\<lambda>u. format_atom r u @ [newline]) (map AStr (sort xs))), None)"
    using assms(2) by (intro write_users_encodable) simp
  then show ?thesis
    using assms(1) by (simp add: write_to_file_def py_sorted_strs comp_def)
qed









lemma sort_two: "distinct xs \<Longrightarrow> set xs = {a, b} \<Longrightarrow> a < b \<Longrightarrow> sort xs = [a, (b :: string)]"
proof -
  assume d: "distinct xs" and s: "set xs = {a, b}" and l: "a < b"
  have "sorted (sort xs)" "distinct (sort xs)" "set (sort xs) = set [a, b]"
    using d s by simp_all
  moreover have "sorted [a, b]" "distinct [a, b]"
    using l by auto
  ultimately show ?thesis
    by (metis sorted_distinct_set_unique)
qed

text \<open>
  C9. For the followers \<^verbatim>\<open>alice\<close> and \<^verbatim>\<open>bob\<close> and the following \<^verbatim>\<open>alice\<close>,
  \<^verbatim>\<open>carol\<close> and \<^verbatim>\<open>dan\<close>, in whatever order the two sets hold them, the
  non-follow-back set is \<^verbatim>\<open>carol\<close> and \<^verbatim>\<open>dan\<close>, and the file written from it, at
  a path that \<^verbatim>\<open>open\<close> can open for writing, holds exactly \<^verbatim>\<open>carol\<close>, newline,
  \<^verbatim>\<open>dan\<close>, newline; nothing is raised.
\<close>

theorem scenario_carol_dan:
  assumes "distinct following"
    and "set following = {''alice'', ''carol'', ''dan''}"
    and "set followers = {''alice'', ''bob''}"
    and "locked fs path = None"
  shows "set (find_non_followers (map AStr following) (map AStr followers))
           = {AStr ''carol'', AStr ''dan''}
         \<and> write_to_file float_repr
              (find_non_followers (map AStr following) (map AStr followers)) path fs
           = (fs\<lparr>nodes := (nodes fs)(path \<mapsto> Inr ''carol\<newline>dan\<newline>'')\<rparr>, None)"
proof -
  let ?xs = "filter (\<lambda>x. x \<notin> set followers) following"
  have nfb: "find_non_followers (map AStr following) (map AStr followers) = map AStr ?xs"
    by (rule find_non_followers_strs)
  have s: "set ?xs = {''carol'', ''dan''}"
    using assms(2,3) by auto
  have d: "distinct ?xs"
    using assms(1) by simp
  have v: "\<forall>u\<in>set ?xs. utf8_valid u"
    unfolding s by (simp add: byte_def)
  have "sort ?xs = [''carol'', ''dan'']"
    using d s by (rule sort_two) simp
  then have "write_to_file float_repr (map AStr ?xs) path fs
               = (fs\<lparr>nodes := (nodes fs)(path \<mapsto> Inr ''carol\<newline>dan\<newline>'')\<rparr>, None)"
    using write_to_file_strs [OF assms(4) v, of float_repr] by (simp add: newline_def)
  with nfb s show ?thesis by simp
qed

theorem scenario_carol_dan_witness:
  "distinct [''dan'', ''alice'', ''carol'']
   \<and> set [''dan'', ''alice'', ''carol''] = {''alice'', ''carol'', ''dan''}
   \<and> set [''bob'', ''alice''] = {''alice'', ''bob''}
   \<and> locked \<lparr>nodes = Map.empty, locked = Map.empty\<rparr> ''out'' = None
   \<and> set (find_non_followers (map AStr [''dan'', ''alice'', ''carol''])
            (map AStr [''bob'', ''alice''])) = {AStr ''carol'', AStr ''dan''}
   \<and> write_to_file (\<lambda>f. [])
        (find_non_followers (map AStr [''dan'', ''alice'', ''carol''])
           (map AStr [''bob'', ''alice''])) ''out'' \<lparr>nodes = Map.empty, locked = Map.empty\<rparr>
       = (\<lparr>nodes = [''out'' \<mapsto> Inr ''carol\<newline>dan\<newline>''], locked = Map.empty\<rparr>, None)"
proof -
  have 1: "distinct [''dan'', ''alice'', ''carol'']" by simp
  have 2: "set [''dan'', ''alice'', ''carol''] = {''alice'', ''carol'', ''dan''}" by auto
  have 3: "set [''bob'', ''alice''] = {''alice'', ''bob''}" by auto
  have 4: "locked \<lparr>nodes = Map.empty, locked = Map.empty\<rparr> ''out'' = None" by simp
  from scenario_carol_dan [OF 1 2 3 4, of "\<lambda>f. []"] 1 2 3 4
  show ?thesis by simp
qed

section \<open>Properties of the top-level flow\<close>

lemma main_loaded:
  assumes "load_json_file json_load fs (followers_path script_dir fs) = Inr followers_data"
    and "load_json_file json_load fs (following_path script_dir) = Inr following_data"
    and "extract_followers followers_data = Inr followers"
    and "extract_following following_data = Inr following"
  shows "main json_load float_repr script_dir fs =
     (let out = [Title, Rule, LoadingFollowers (followers_path script_dir fs),
                 LoadingFollowing (following_path script_dir), Extracting,
                 FoundFollowers (length followers), FoundFollowing (length following)];
          not_following_back = find_non_followers following followers
      in if not_following_back = [] then (out @ [EveryoneFollowsBack], fs)
         else case write_to_file float_repr not_following_back (output_path script_dir) fs of
                (fs', Some e) \<Rightarrow> (out @ handler e, fs')
              | (fs', None) \<Rightarrow>
                  (out @ [FoundNotFollowingBack (length not_following_back),
                          ResultsSaved (output_path script_dir)], fs'))"
  using assms by (simp add: main_def try_body_def Let_def split: prod.splits option.splits)

lemma try_body_cases:
  "try_body json_load float_repr fp gp op fs = (out, fs', err) \<Longrightarrow>
   fs' = fs \<or>
   (\<exists>followers_data following_data followers following.
      load_json_file json_load fs fp = Inr followers_data
      \<and> load_json_file json_load fs gp = Inr following_data
      \<and> extract_followers followers_data = Inr followers
      \<and> extract_following following_data = Inr following
      \<and> find_non_followers following followers \<noteq> []
      \<and> write_to_file float_repr (find_non_followers following followers) op fs = (fs', err))"
  by (auto simp: try_body_def Let_def split: sum.splits if_splits prod.splits option.splits)

lemma try_body_written:
  "try_body json_load float_repr fp gp op fs = (out, fs', err) \<Longrightarrow>
   ResultsSaved op \<in> set out \<Longrightarrow>
   (\<exists>followers_data following_data followers following.
      load_json_file json_load fs fp = Inr followers_data
      \<and> load_json_file json_load fs gp = Inr following_data
      \<and> extract_followers followers_data = Inr followers
      \<and> extract_following following_data = Inr following
      \<and> find_non_followers following followers \<noteq> []
      \<and> write_to_file float_repr (find_non_followers following followers) op fs = (fs', None)
      \<and> err = None)"
  by (auto simp: try_body_def Let_def split: sum.splits if_splits prod.splits option.splits)

lemma handler_no_results: "ResultsSaved p \<notin> set (handler e)"
  by (cases e) simp_all

lemma main_written:
  assumes "main json_load float_repr script_dir fs = (out, fs')"
    and "ResultsSaved (output_path script_dir) \<in> set out \<or> fs' \<noteq> fs"
  shows "\<exists>followers_data following_data followers following err.
      load_json_file json_load fs (followers_path script_dir fs) = Inr followers_data
      \<and> load_json_file json_load fs (following_path script_dir) = Inr following_data
      \<and> extract_followers followers_data = Inr followers
      \<and> extract_following following_data = Inr following
      \<and> find_non_followers following followers \<noteq> []
      \<and> write_to_file float_repr (find_non_followers following followers)
            (output_path script_dir) fs = (fs', err)
      \<and> (ResultsSaved (output_path script_dir) \<in> set out \<longrightarrow> err = None)"
proof -
  obtain o1 f1 e1 where t: "try_body json_load float_repr (followers_path script_dir fs)
      (following_path script_dir) (output_path script_dir) fs = (o1, f1, e1)"
    by (metis prod_cases3)
  with assms(1) have f: "f1 = fs'"
    and o: "out = [Title, Rule] @ o1 @ (case e1 of None \<Rightarrow> [] | Some e \<Rightarrow> handler e)"
    by (auto simp: main_def split: option.splits)
  show ?thesis
  proof (cases "ResultsSaved (output_path script_dir) \<in> set out")
    case True
    with o have "ResultsSaved (output_path script_dir) \<in> set o1"
      by (auto simp: handler_no_results split: option.splits)
    from try_body_written [OF t this] f show ?thesis by blast
  next
    case False
    with assms(2) have "fs' \<noteq> fs" by simp
    with try_body_cases [OF t] f False show ?thesis by blast
  qed
qed

text \<open>
  C5. When both files load and both extractions return, and the non-follow-back set is
  empty, \<open>main\<close> leaves the file system as it was and its last message is the one that
  everyone follows back. Whenever \<open>main\<close> reports that it saved the results, or leaves a
  file system other than the one it started from, the non-follow-back set it computed was
  not empty and the file system is the one that \<open>write_to_file\<close> leaves on that set;
  where the results are reported as saved, \<open>write_to_file\<close> raised nothing.
\<close>

theorem no_report_when_everyone_follows_back:
  "(load_json_file json_load fs (followers_path script_dir fs) = Inr followers_data
    \<and> load_json_file json_load fs (following_path script_dir) = Inr following_data
    \<and> extract_followers followers_data = Inr followers
    \<and> extract_following following_data = Inr following
    \<and> find_non_followers following followers = []
    \<longrightarrow> main json_load float_repr script_dir fs =
          ([Title, Rule, LoadingFollowers (followers_path script_dir fs),
            LoadingFollowing (following_path script_dir), Extracting,
            FoundFollowers (length followers), FoundFollowing (length following),
            EveryoneFollowsBack], fs))
   \<and> (main json_load float_repr script_dir fs = (out, fs')
      \<and> (ResultsSaved (output_path script_dir) \<in> set out \<or> fs' \<noteq> fs)
    \<longrightarrow> (\<exists>fd gd fers fing err.
          load_json_file json_load fs (followers_path script_dir fs) = Inr fd
          \<and> load_json_file json_load fs (following_path script_dir) = Inr gd
          \<and> extract_followers fd = Inr fers
          \<and> extract_following gd = Inr fing
          \<and> find_non_followers fing fers \<noteq> []
          \<and> write_to_file float_repr (find_non_followers fing fers)
               (output_path script_dir) fs = (fs', err)
          \<and> (ResultsSaved (output_path script_dir) \<in> set out \<longrightarrow> err = None)))"
proof (intro conjI impI)
  assume "load_json_file json_load fs (followers_path script_dir fs) = Inr followers_data
    \<and> load_json_file json_load fs (following_path script_dir) = Inr following_data
    \<and> extract_followers followers_data = Inr followers
    \<and> extract_following following_data = Inr following
    \<and> find_non_followers following followers = []"
  then show "main json_load float_repr script_dir fs =
          ([Title, Rule, LoadingFollowers (followers_path script_dir fs),
            LoadingFollowing (following_path script_dir), Extracting,
            FoundFollowers (length followers), FoundFollowing (length following),
            EveryoneFollowsBack], fs)"
    using main_loaded [of json_load fs script_dir followers_data following_data followers
        following float_repr]
    by simp
next
  assume "main json_load float_repr script_dir fs = (out, fs')
      \<and> (ResultsSaved (output_path script_dir) \<in> set out \<or> fs' \<noteq> fs)"
  then show "\<exists>fd gd fers fing err.
          load_json_file json_load fs (followers_path script_dir fs) = Inr fd
          \<and> load_json_file json_load fs (following_path script_dir) = Inr gd
          \<and> extract_followers fd = Inr fers
          \<and> extract_following gd = Inr fing
          \<and> find_non_followers fing fers \<noteq> []
          \<and> write_to_file float_repr (find_non_followers fing fers)
               (output_path script_dir) fs = (fs', err)
          \<and> (ResultsSaved (output_path script_dir) \<in> set out \<longrightarrow> err = None)"
    using main_written [of json_load float_repr script_dir fs out fs'] by blast
qed

lemmas example_defs =
  main_def try_body_def followers_path_def primary_followers_path_def
  alternative_followers_path_def following_path_def output_path_def path_join_def
  load_json_file_def example_load_def example_fs_def xy_followers_def xy_following_def
  extract_followers_def extract_following_def set_add_def set_contains_def py_eq_def
  find_non_followers_def write_to_file_def py_sorted_def byte_def in_range_def
  newline_def carriage_return_def

theorem no_report_when_everyone_follows_back_witness:
  "load_json_file example_load example_fs (followers_path ''d'' example_fs) = Inr xy_followers
   \<and> load_json_file example_load example_fs (following_path ''d'') = Inr xy_following
   \<and> extract_followers xy_followers = Inr [AStr ''x'', AStr ''y'']
   \<and> extract_following xy_following = Inr [AStr ''x'', AStr ''y'']
   \<and> find_non_followers [AStr ''x'', AStr ''y''] [AStr ''x'', AStr ''y''] = []
   \<and> main example_load (\<lambda>f. []) ''d'' example_fs =
       ([Title, Rule, LoadingFollowers ''d/followers_and_following/followers.json'',
         LoadingFollowing ''d/followers_and_following/following.json'', Extracting,
         FoundFollowers 2, FoundFollowing 2, EveryoneFollowsBack], example_fs)
   \<and> main example_load (\<lambda>f. []) ''d''
         (example_fs\<lparr>nodes := (nodes example_fs)
            (''d/followers_and_following/followers_1.json'' \<mapsto> Inr ''E'')\<rparr>) =
       ([Title, Rule, LoadingFollowers ''d/followers_and_following/followers_1.json'',
         LoadingFollowing ''d/followers_and_following/following.json'', Extracting,
         FoundFollowers 0, FoundFollowing 2, FoundNotFollowingBack 2,
         ResultsSaved ''d/not_following_back.txt''],
        example_fs\<lparr>nodes := (nodes example_fs)
            (''d/followers_and_following/followers_1.json'' \<mapsto> Inr ''E'',
             ''d/not_following_back.txt'' \<mapsto> Inr ''x\<newline>y\<newline>'')\<rparr>)
   \<and> (\<exists>fd gd fers fing err.
          load_json_file example_load
              (example_fs\<lparr>nodes := (nodes example_fs)
                 (''d/followers_and_following/followers_1.json'' \<mapsto> Inr ''E'')\<rparr>)
              (followers_path ''d''
                (example_fs\<lparr>nodes := (nodes example_fs)
                   (''d/followers_and_following/followers_1.json'' \<mapsto> Inr ''E'')\<rparr>)) = Inr fd
          \<and> load_json_file example_load
              (example_fs\<lparr>nodes := (nodes example_fs)
                 (''d/followers_and_following/followers_1.json'' \<mapsto> Inr ''E'')\<rparr>)
              (following_path ''d'') = Inr gd
          \<and> extract_followers fd = Inr fers
          \<and> extract_following gd = Inr fing
          \<and> find_non_followers fing fers \<noteq> []
          \<and> write_to_file (\<lambda>f. []) (find_non_followers fing fers) (output_path ''d'')
               (example_fs\<lparr>nodes := (nodes example_fs)
                  (''d/followers_and_following/followers_1.json'' \<mapsto> Inr ''E'')\<rparr>)
             = (example_fs\<lparr>nodes := (nodes example_fs)
                  (''d/followers_and_following/followers_1.json'' \<mapsto> Inr ''E'',
                   ''d/not_following_back.txt'' \<mapsto> Inr ''x\<newline>y\<newline>'')\<rparr>, err)
          \<and> err = None)"
proof -
  let ?fs2 = "example_fs\<lparr>nodes := (nodes example_fs)
                 (''d/followers_and_following/followers_1.json'' \<mapsto> Inr ''E'')\<rparr>"
  let ?fs3 = "example_fs\<lparr>nodes := (nodes example_fs)
                  (''d/followers_and_following/followers_1.json'' \<mapsto> Inr ''E'',
                   ''d/not_following_back.txt'' \<mapsto> Inr ''x\<newline>y\<newline>'')\<rparr>"
  let ?out2 = "[Title, Rule, LoadingFollowers ''d/followers_and_following/followers_1.json'',
         LoadingFollowing ''d/followers_and_following/following.json'', Extracting,
         FoundFollowers 0, FoundFollowing 2, FoundNotFollowingBack 2,
         ResultsSaved ''d/not_following_back.txt'']"
  have 1: "load_json_file example_load example_fs (followers_path ''d'' example_fs)
             = Inr xy_followers"
    by (simp add: example_defs)
  have 2: "load_json_file example_load example_fs (following_path ''d'') = Inr xy_following"
    by (simp add: example_defs)
  have 3: "extract_followers xy_followers = Inr [AStr ''x'', AStr ''y'']"
    by (simp add: example_defs)
  have 4: "extract_following xy_following = Inr [AStr ''x'', AStr ''y'']"
    by (simp add: example_defs)
  have 5: "find_non_followers [AStr ''x'', AStr ''y''] [AStr ''x'', AStr ''y''] = []"
    by (simp add: example_defs)
  have 6: "main example_load (\<lambda>f. []) ''d'' ?fs2 = (?out2, ?fs3)"
    by (simp add: example_defs)
  have 7: "ResultsSaved (output_path ''d'') \<in> set ?out2"
    by (simp add: output_path_def path_join_def)
  from 1 2 3 4 5
    no_report_when_everyone_follows_back [of example_load example_fs "''d''" xy_followers
      xy_following "[AStr ''x'', AStr ''y'']" "[AStr ''x'', AStr ''y'']" "\<lambda>f. []"]
  have a: "main example_load (\<lambda>f. []) ''d'' example_fs =
       ([Title, Rule, LoadingFollowers ''d/followers_and_following/followers.json'',
         LoadingFollowing ''d/followers_and_following/following.json'', Extracting,
         FoundFollowers 2, FoundFollowing 2, EveryoneFollowsBack], example_fs)"
    by (simp add: followers_path_def primary_followers_path_def alternative_followers_path_def
        following_path_def path_join_def example_fs_def)
  from 6 7
    no_report_when_everyone_follows_back [of example_load ?fs2 "''d''" _ _ _ _ "\<lambda>f. []" ?out2
      ?fs3]
  have b: "\<exists>fd gd fers fing err.
          load_json_file example_load ?fs2 (followers_path ''d'' ?fs2) = Inr fd
          \<and> load_json_file example_load ?fs2 (following_path ''d'') = Inr gd
          \<and> extract_followers fd = Inr fers
          \<and> extract_following gd = Inr fing
          \<and> find_non_followers fing fers \<noteq> []
          \<and> write_to_file (\<lambda>f. []) (find_non_followers fing fers) (output_path ''d'') ?fs2
             = (?fs3, err)
          \<and> err = None"
    by blast
  from 1 2 3 4 5 a 6 b show ?thesis
    by (intro conjI)
qed

section \<open>Properties of the loader and of the error handlers\<close>

lemma main_followers_error:
  "load_json_file json_load fs (followers_path script_dir fs) = Inl e \<Longrightarrow>
   main json_load float_repr script_dir fs =
     ([Title, Rule, LoadingFollowers (followers_path script_dir fs)] @ handler e, fs)"
  by (simp add: main_def try_body_def)

lemma main_following_error:
  "load_json_file json_load fs (followers_path script_dir fs) = Inr followers_data \<Longrightarrow>
   load_json_file json_load fs (following_path script_dir) = Inl e \<Longrightarrow>
   main json_load float_repr script_dir fs =
     ([Title, Rule, LoadingFollowers (followers_path script_dir fs),
       LoadingFollowing (following_path script_dir)] @ handler e, fs)"
  by (simp add: main_def try_body_def)

lemma load_json_file_errors:
  "load_json_file json_load fs p = Inl e \<Longrightarrow>
   (nodes fs p = None \<and> e = FileNotFoundError (''File not found: '' @ p))
   \<or> nodes fs p = Some (Inl e)
   \<or> (\<exists>content. nodes fs p = Some (Inr content) \<and> \<not> utf8_valid content
         \<and> e = UnicodeDecodeError)
   \<or> (\<exists>content. nodes fs p = Some (Inr content) \<and> utf8_valid content
         \<and> json_load (universal_newlines content) = Inl e)"
  by (auto simp: load_json_file_def split: option.splits sum.splits if_splits)

text \<open>
  C6, as stated, fails. A followers file that holds the five bytes of the JSON text of a
  list with the one string \<^verbatim>\<open>e\<close> with an acute accent, in Latin-1, is content that
  cannot be parsed as JSON. \<open>load_json_file\<close> raises \<^verbatim>\<open>UnicodeDecodeError\<close> on it,
  not \<^verbatim>\<open>JSONDecodeError\<close>, and \<open>main\<close> reports it with the message of the catch-all
  clause.
\<close>

theorem undecodable_file_reported_as_unexpected:
  "load_json_file example_load
     \<lparr>nodes = [''d/followers_and_following/followers_1.json''
                 \<mapsto> Inr [CHR 0x5B, CHR 0x22, CHR 0xE9, CHR 0x22, CHR 0x5D]],
      locked = Map.empty\<rparr>
     ''d/followers_and_following/followers_1.json'' = Inl UnicodeDecodeError
   \<and> main example_load (\<lambda>f. []) ''d''
     \<lparr>nodes = [''d/followers_and_following/followers_1.json''
                 \<mapsto> Inr [CHR 0x5B, CHR 0x22, CHR 0xE9, CHR 0x22, CHR 0x5D]],
      locked = Map.empty\<rparr>
     = ([Title, Rule, LoadingFollowers ''d/followers_and_following/followers_1.json'',
         UnexpectedError UnicodeDecodeError],
        \<lparr>nodes = [''d/followers_and_following/followers_1.json''
                   \<mapsto> Inr [CHR 0x5B, CHR 0x22, CHR 0xE9, CHR 0x22, CHR 0x5D]],
         locked = Map.empty\<rparr>)"
  by (simp add: main_def try_body_def followers_path_def primary_followers_path_def
      path_join_def load_json_file_def byte_def in_range_def)

text \<open>
  C6, amended. \<open>load_json_file\<close> raises \<^verbatim>\<open>FileNotFoundError\<close> on a path where nothing
  exists, and \<^verbatim>\<open>JSONDecodeError\<close> on a file of UTF-8 text that the parser rejects as
  malformed JSON. Its other errors are the error of \<^verbatim>\<open>open\<close> on a path that exists,
  \<^verbatim>\<open>UnicodeDecodeError\<close> on bytes that are not UTF-8, and whatever else the parser
  raises. An error of either file reaches the handlers of \<open>main\<close> as it was raised and
  nothing is written: a missing file gets the guidance, malformed JSON gets the notice
  about invalid JSON, and the other kinds get the message of the catch-all clause.
\<close>

theorem load_errors_by_kind:
  "(nodes fs p = None \<longrightarrow>
      load_json_file json_load fs p = Inl (FileNotFoundError (''File not found: '' @ p)))
   \<and> (nodes fs p = Some (Inr content) \<and> utf8_valid content
      \<and> json_load (universal_newlines content) = Inl (JSONDecodeError m) \<longrightarrow>
      load_json_file json_load fs p = Inl (JSONDecodeError m))
   \<and> (load_json_file json_load fs p = Inl e \<longrightarrow>
      (nodes fs p = None \<and> e = FileNotFoundError (''File not found: '' @ p))
      \<or> nodes fs p = Some (Inl e)
      \<or> (\<exists>content. nodes fs p = Some (Inr content) \<and> \<not> utf8_valid content
            \<and> e = UnicodeDecodeError)
      \<or> (\<exists>content. nodes fs p = Some (Inr content) \<and> utf8_valid content
            \<and> json_load (universal_newlines content) = Inl e))
   \<and> (load_json_file json_load fs (followers_path script_dir fs) = Inl e \<longrightarrow>
      main json_load float_repr script_dir fs =
        ([Title, Rule, LoadingFollowers (followers_path script_dir fs)] @ handler e, fs))
   \<and> (load_json_file json_load fs (followers_path script_dir fs) = Inr followers_data
      \<and> load_json_file json_load fs (following_path script_dir) = Inl e \<longrightarrow>
      main json_load float_repr script_dir fs =
        ([Title, Rule, LoadingFollowers (followers_path script_dir fs),
          LoadingFollowing (following_path script_dir)] @ handler e, fs))
   \<and> handler (FileNotFoundError m1) =
        [ErrorNotFound (FileNotFoundError m1), MakeSure, Step1, Step2, Step3]
   \<and> handler (JSONDecodeError m2) = [ErrorInvalidJson (JSONDecodeError m2), CorruptHint]
   \<and> handler UnicodeDecodeError = [UnexpectedError UnicodeDecodeError]
   \<and> handler (OSError m3) = [UnexpectedError (OSError m3)]
   \<and> handler (ValueError m4) = [UnexpectedError (ValueError m4)]
   \<and> handler RecursionError = [UnexpectedError RecursionError]"
proof (intro conjI impI)
  show "load_json_file json_load fs p = Inl (FileNotFoundError (''File not found: '' @ p))"
    if "nodes fs p = None"
    using that by (simp add: load_json_file_def)
  show "load_json_file json_load fs p = Inl (JSONDecodeError m)"
    if "nodes fs p = Some (Inr content) \<and> utf8_valid content
      \<and> json_load (universal_newlines content) = Inl (JSONDecodeError m)"
    using that by (simp add: load_json_file_def)
  show "(nodes fs p = None \<and> e = FileNotFoundError (''File not found: '' @ p))
      \<or> nodes fs p = Some (Inl e)
      \<or> (\<exists>content. nodes fs p = Some (Inr content) \<and> \<not> utf8_valid content
            \<and> e = UnicodeDecodeError)
      \<or> (\<exists>content. nodes fs p = Some (Inr content) \<and> utf8_valid content
            \<and> json_load (universal_newlines content) = Inl e)"
    if "load_json_file json_load fs p = Inl e"
    using that by (rule load_json_file_errors)
  show "main json_load float_repr script_dir fs =
        ([Title, Rule, LoadingFollowers (followers_path script_dir fs)] @ handler e, fs)"
    if "load_json_file json_load fs (followers_path script_dir fs) = Inl e"
    using that by (rule main_followers_error)
  show "main json_load float_repr script_dir fs =
        ([Title, Rule, LoadingFollowers (followers_path script_dir fs),
          LoadingFollowing (following_path script_dir)] @ handler e, fs)"
    if "load_json_file json_load fs (followers_path script_dir fs) = Inr followers_data
      \<and> load_json_file json_load fs (following_path script_dir) = Inl e"
    using that by (simp add: main_following_error)
qed simp_all

theorem load_errors_by_kind_witness:
  "nodes \<lparr>nodes = Map.empty, locked = Map.empty\<rparr> ''d/followers_and_following/followers.json''
     = None
   \<and> load_json_file example_load \<lparr>nodes = Map.empty, locked = Map.empty\<rparr>
         ''d/followers_and_following/followers.json''
       = Inl (FileNotFoundError ''File not found: d/followers_and_following/followers.json'')
   \<and> followers_path ''d'' \<lparr>nodes = Map.empty, locked = Map.empty\<rparr>
       = ''d/followers_and_following/followers.json''
   \<and> main example_load (\<lambda>f. []) ''d'' \<lparr>nodes = Map.empty, locked = Map.empty\<rparr> =
       ([Title, Rule, LoadingFollowers ''d/followers_and_following/followers.json'',
         ErrorNotFound
           (FileNotFoundError ''File not found: d/followers_and_following/followers.json''),
         MakeSure, Step1, Step2, Step3], \<lparr>nodes = Map.empty, locked = Map.empty\<rparr>)
   \<and> nodes \<lparr>nodes = [''d/followers_and_following/followers_1.json'' \<mapsto> Inr ''{''],
             locked = Map.empty\<rparr> ''d/followers_and_following/followers_1.json''
       = Some (Inr ''{'')
   \<and> utf8_valid ''{''
   \<and> example_load (universal_newlines ''{'') = Inl (JSONDecodeError ''Expecting value'')
   \<and> load_json_file example_load
         \<lparr>nodes = [''d/followers_and_following/followers_1.json'' \<mapsto> Inr ''{''],
          locked = Map.empty\<rparr> ''d/followers_and_following/followers_1.json''
       = Inl (JSONDecodeError ''Expecting value'')
   \<and> main example_load (\<lambda>f. []) ''d''
         \<lparr>nodes = [''d/followers_and_following/followers_1.json'' \<mapsto> Inr ''{''],
          locked = Map.empty\<rparr> =
       ([Title, Rule, LoadingFollowers ''d/followers_and_following/followers_1.json'',
         ErrorInvalidJson (JSONDecodeError ''Expecting value''), CorruptHint],
        \<lparr>nodes = [''d/followers_and_following/followers_1.json'' \<mapsto> Inr ''{''],
         locked = Map.empty\<rparr>)
   \<and> load_json_file example_load
         \<lparr>nodes = [''d/followers_and_following/followers_1.json'' \<mapsto> Inr ''E''],
          locked = Map.empty\<rparr>
         (followers_path ''d''
           \<lparr>nodes = [''d/followers_and_following/followers_1.json'' \<mapsto> Inr ''E''],
            locked = Map.empty\<rparr>)
       = Inr (JArr [])
   \<and> load_json_file example_load
         \<lparr>nodes = [''d/followers_and_following/followers_1.json'' \<mapsto> Inr ''E''],
          locked = Map.empty\<rparr> (following_path ''d'')
       = Inl (FileNotFoundError ''File not found: d/followers_and_following/following.json'')
   \<and> main example_load (\<lambda>f. []) ''d''
         \<lparr>nodes = [''d/followers_and_following/followers_1.json'' \<mapsto> Inr ''E''],
          locked = Map.empty\<rparr> =
       ([Title, Rule, LoadingFollowers ''d/followers_and_following/followers_1.json'',
         LoadingFollowing ''d/followers_and_following/following.json'',
         ErrorNotFound
           (FileNotFoundError ''File not found: d/followers_and_following/following.json''),
         MakeSure, Step1, Step2, Step3],
        \<lparr>nodes = [''d/followers_and_following/followers_1.json'' \<mapsto> Inr ''E''],
         locked = Map.empty\<rparr>)"
proof -
  let ?pA = "''d/followers_and_following/followers.json''"
  let ?p1 = "''d/followers_and_following/followers_1.json''"
  let ?fsA = "\<lparr>nodes = Map.empty, locked = Map.empty\<rparr> :: filesystem"
  let ?fsB = "\<lparr>nodes = [?p1 \<mapsto> Inr ''{''], locked = Map.empty\<rparr> :: filesystem"
  let ?fsC = "\<lparr>nodes = [?p1 \<mapsto> Inr ''E''], locked = Map.empty\<rparr> :: filesystem"
  have pathA: "followers_path ''d'' ?fsA = ?pA"
    by (simp add: followers_path_def primary_followers_path_def alternative_followers_path_def
        path_join_def)
  have pathB: "followers_path ''d'' ?fsB = ?p1"
    by (simp add: followers_path_def primary_followers_path_def path_join_def)
  have pathC: "followers_path ''d'' ?fsC = ?p1"
    by (simp add: followers_path_def primary_followers_path_def path_join_def)
  have pathG: "following_path ''d'' = ''d/followers_and_following/following.json''"
    by (simp add: following_path_def path_join_def)
  have validB: "utf8_valid ''{''"
    by (simp add: byte_def)
  have bad: "example_load (universal_newlines ''{'') = Inl (JSONDecodeError ''Expecting value'')"
    by (simp add: example_load_def carriage_return_def)
  have noneA: "nodes ?fsA ?pA = None"
    by simp
  have loadA: "load_json_file example_load ?fsA ?pA
       = Inl (FileNotFoundError ''File not found: d/followers_and_following/followers.json'')"
    using load_errors_by_kind [where fs = ?fsA and p = ?pA
        and json_load = example_load, THEN conjunct1] noneA
    by simp
  have mainA: "main example_load (\<lambda>f. []) ''d'' ?fsA =
       ([Title, Rule, LoadingFollowers ?pA,
         ErrorNotFound
           (FileNotFoundError ''File not found: d/followers_and_following/followers.json''),
         MakeSure, Step1, Step2, Step3], ?fsA)"
    using load_errors_by_kind [where fs = ?fsA and json_load = example_load
        and e = "FileNotFoundError ''File not found: d/followers_and_following/followers.json''"
        and script_dir = "''d''" and float_repr = "\<lambda>f. []",
        THEN conjunct2, THEN conjunct2, THEN conjunct2, THEN conjunct1] loadA pathA
    by simp
  have someB: "nodes ?fsB ?p1 = Some (Inr ''{'')"
    by simp
  have loadB: "load_json_file example_load ?fsB ?p1 = Inl (JSONDecodeError ''Expecting value'')"
    using load_errors_by_kind [where fs = ?fsB and p = ?p1 and json_load = example_load
        and content = "''{''" and m = "''Expecting value''", THEN conjunct2, THEN conjunct1]
      someB validB bad
    by simp
  have mainB: "main example_load (\<lambda>f. []) ''d'' ?fsB =
       ([Title, Rule, LoadingFollowers ?p1,
         ErrorInvalidJson (JSONDecodeError ''Expecting value''), CorruptHint], ?fsB)"
    using load_errors_by_kind [where fs = ?fsB and json_load = example_load
        and e = "JSONDecodeError ''Expecting value''"
        and script_dir = "''d''" and float_repr = "\<lambda>f. []",
        THEN conjunct2, THEN conjunct2, THEN conjunct2, THEN conjunct1] loadB pathB
    by simp
  have loadC1: "load_json_file example_load ?fsC (followers_path ''d'' ?fsC) = Inr (JArr [])"
    by (simp add: pathC load_json_file_def example_load_def byte_def carriage_return_def)
  have loadC2: "load_json_file example_load ?fsC (following_path ''d'')
       = Inl (FileNotFoundError ''File not found: d/followers_and_following/following.json'')"
    by (simp add: pathG load_json_file_def)
  have mainC: "main example_load (\<lambda>f. []) ''d'' ?fsC =
       ([Title, Rule, LoadingFollowers ?p1,
         LoadingFollowing ''d/followers_and_following/following.json'',
         ErrorNotFound
           (FileNotFoundError ''File not found: d/followers_and_following/following.json''),
         MakeSure, Step1, Step2, Step3], ?fsC)"
    using load_errors_by_kind [where fs = ?fsC and json_load = example_load
        and e = "FileNotFoundError ''File not found: d/followers_and_following/following.json''"
        and script_dir = "''d''" and float_repr = "\<lambda>f. []" and followers_data = "JArr []",
        THEN conjunct2, THEN conjunct2, THEN conjunct2, THEN conjunct2, THEN conjunct1]
      loadC1 loadC2 pathC pathG
    by simp
  from noneA loadA pathA mainA someB validB bad loadB mainB loadC1 loadC2 mainC show ?thesis
    by (intro conjI)
qed

end
